theory Spec2Isabelle
  imports Complex_Main "HOL-Library.AList" "HOL-Library.Multiset" "HOL-Library.Sublist"
begin

section \<open>Python values shared by the classes\<close>

text \<open>
  Exceptions are values. An exception carries its class, the text that \<open>str(exc)\<close> gives and
  the exception it was raised \<open>from\<close>. \<open>OtherError name b\<close> is any class the library may raise;
  \<open>b\<close> says whether that class derives from \<open>ValueError\<close>, which is all that
  \<open>except ValueError\<close> looks at.
\<close>

datatype exc_class = ValueError | RuntimeError | KeyError | OtherError string bool

datatype exn = Exn (exn_class: exc_class) (exn_message: string) (exn_cause: "exn option")

fun isinstance_ValueError :: "exn \<Rightarrow> bool" where
  "isinstance_ValueError (Exn ValueError m c) = True"
| "isinstance_ValueError (Exn (OtherError n b) m c) = b"
| "isinstance_ValueError (Exn k m c) = False"

text \<open>The decimal text of an integer, as \<open>str\<close> and an f-string field give it.\<close>

definition digit_char :: "nat \<Rightarrow> char" where
  "digit_char d = ''0123456789'' ! d"

function str_of_nat :: "nat \<Rightarrow> string" where
  "str_of_nat n = (if n < 10 then [digit_char n] else str_of_nat (n div 10) @ [digit_char (n mod 10)])"
  by pat_completeness auto
termination
  by (relation "measure id") auto

declare str_of_nat.simps [simp del]

definition str_of_int :: "int \<Rightarrow> string" where
  "str_of_int i = (if i < 0 then ''-'' @ str_of_nat (nat (- i)) else str_of_nat (nat i))"

text \<open>
  A channel or contact identifier is an integer or a text; \<open>py_str\<close> is \<open>str(ch)\<close> and
  \<open>astype_str\<close> is one cell of \<open>column.astype(str)\<close>.
\<close>

datatype cell = IntId int | StrId string

fun py_str :: "cell \<Rightarrow> string" where
  "py_str (IntId i) = str_of_int i"
| "py_str (StrId s) = s"

definition astype_str :: "cell \<Rightarrow> cell" where
  "astype_str c = StrId (py_str c)"

section \<open>Floating-point arithmetic\<close>

text \<open>
  A Python float is a binary64 number; it is modelled by the real number it denotes. The
  result of an arithmetic operation is the exact result rounded to the nearest binary64
  number, ties to the even significand: 53 significant bits at exponent
  \<open>\<lfloor>log 2 \<bar>x\<bar>\<rfloor>\<close>, and a fixed spacing of \<open>2 ^ -1074\<close> below \<open>2 ^ -1022\<close>. Results
  of magnitude \<open>2 ^ 1024\<close> or more, which the machine turns into an infinity, are not
  modelled; the theorems on timestamps bound the sampling frequency so that none arises.
\<close>

definition two_to :: "int \<Rightarrow> real" where
  "two_to e = (if 0 \<le> e then 2 ^ nat e else 1 / 2 ^ nat (- e))"

definition round_half_even :: "real \<Rightarrow> int" where
  "round_half_even y =
     (let n = \<lfloor>y\<rfloor>; d = y - of_int n
      in if d < 1 / 2 then n else if 1 / 2 < d then n + 1 else if even n then n else n + 1)"

definition float64 :: "real \<Rightarrow> real" where
  "float64 x =
     (if x = 0 then 0
      else (let e = max \<lfloor>log 2 \<bar>x\<bar>\<rfloor> (- 1022); ulp = two_to (e - 52)
            in of_int (round_half_even (x / ulp)) * ulp))"

section \<open>TriggerClass.py and TimestampsClass.py\<close>

record Trigger =
  threshold :: real
  edge :: int
  min_interval :: real

record TimestampsParameters =
  trigger :: Trigger
  trigger_channel_index :: int

section \<open>IntanClass.py: the session and trigger detection\<close>

text \<open>
  The ADC stream: its channel ids, the samples of each channel (the one column that
  \<open>get_traces(channel_ids=[id])\<close> returns) and its sampling frequency.
\<close>

record adc_recording =
  adc_channel_ids :: "cell list"
  adc_get_traces :: "cell \<Rightarrow> int list"
  adc_sampling_frequency :: real

text \<open>
  The field \<open>probe\<close> of the session first holds the caller's wrapper object and later the
  library's probe built from the aligned table.
\<close>

record Probe =
  file_path :: string
  dataframe :: nat

datatype 'p probe_slot = NoProbe | ProbeWrapper Probe | ProbeObject 'p

record ('r, 'p, 's, 'a) IntanFile =
  folder_path :: string
  trigger_timestamps :: "real list"
  frequency :: real
  channel_ids :: "cell list"
  adc_channel_recording :: adc_recording
  signed_amplifier_channel_recording :: 'r
  pre_processed_signed_amplifier_channel_recording :: "'r option"
  probe :: "'p probe_slot"
  timestamps_parameters :: "TimestampsParameters option"
  computed_analyzer_result :: "'a option"
  sorting_dedup :: "'s option"

text \<open>
  \<open>get_traces\<close> returns a matrix of shape (samples, 1); \<open>squeeze\<close> drops every axis of
  length one, so a trace of exactly one sample becomes a zero-dimensional array, on which
  \<open>np.diff\<close> raises.
\<close>

datatype 'x ndarray = Scalar 'x | Vector "'x list"

fun squeeze :: "'x list \<Rightarrow> 'x ndarray" where
  "squeeze [x] = Scalar x"
| "squeeze xs = Vector xs"

fun less_than_threshold :: "int ndarray \<Rightarrow> real \<Rightarrow> bool ndarray" where
  "less_than_threshold (Scalar x) th = Scalar (real_of_int x < th)"
| "less_than_threshold (Vector xs) th = Vector (map (\<lambda>x. real_of_int x < th) xs)"

fun astype_int :: "bool ndarray \<Rightarrow> int ndarray" where
  "astype_int (Scalar b) = Scalar (if b then 1 else 0)"
| "astype_int (Vector bs) = Vector (map (\<lambda>b. if b then 1 else 0) bs)"

fun diff_list :: "int list \<Rightarrow> int list" where
  "diff_list (x # y # ys) = (y - x) # diff_list (y # ys)"
| "diff_list xs = []"

fun np_diff :: "int ndarray \<Rightarrow> exn + int list" where
  "np_diff (Scalar x) =
     Inl (Exn ValueError ''diff requires input that is at least one dimensional'' None)"
| "np_diff (Vector xs) = Inr (diff_list xs)"

definition np_where :: "bool list \<Rightarrow> nat list" where
  "np_where bs = [i \<leftarrow> [0..<length bs]. bs ! i]"

text \<open>
  Lines 138 to 141: the candidate crossings, in seconds. The division converts each sample
  index to a float and divides by the sampling frequency in floating point.
\<close>

definition candidate_timestamps :: "int list \<Rightarrow> Trigger \<Rightarrow> real \<Rightarrow> exn + real list" where
  "candidate_timestamps column trg freq =
     (let signal = squeeze column;
          signal_under_threshold = less_than_threshold signal (threshold trg)
      in case np_diff (astype_int signal_under_threshold) of
           Inl e \<Rightarrow> Inl e
         | Inr d \<Rightarrow>
             (let trigger_samples = np_where (map (\<lambda>v. v = edge trg) d)
              in Inr (map (\<lambda>i. float64 (float64 (real i) / freq)) trigger_samples)))"

text \<open>
  Lines 146 to 150: the loop over the later candidates, appending to the kept list. The
  difference of two timestamps is a floating-point subtraction; its result is compared
  exactly with the minimum interval.
\<close>

fun kept_loop :: "real \<Rightarrow> real list \<Rightarrow> real list \<Rightarrow> real list" where
  "kept_loop mi kept [] = kept"
| "kept_loop mi kept (ts # rest) =
     kept_loop mi (if float64 (ts - last kept) \<ge> mi then kept @ [ts] else kept) rest"

definition apply_min_interval :: "real \<Rightarrow> real list \<Rightarrow> real list" where
  "apply_min_interval mi tts =
     (if mi > 0 \<and> length tts > 0 then kept_loop mi [hd tts] (tl tts) else tts)"

definition range_error :: "int \<Rightarrow> nat \<Rightarrow> exn" where
  "range_error channel_index n =
     Exn ValueError
       (''trigger_channel_index='' @ str_of_int channel_index @ '' is out of range for ''
          @ str_of_int (int n) @ '' ADC channels.'') None"

text \<open>
  The method. The parameters are stored first; the timestamps are assigned only when
  nothing has raised. The line printed at the end is not modelled.
\<close>

definition generate_trigger_timestamps ::
  "('r, 'p, 's, 'a) IntanFile \<Rightarrow> TimestampsParameters
     \<Rightarrow> (exn + unit) \<times> ('r, 'p, 's, 'a) IntanFile" where
  "generate_trigger_timestamps self tp =
     (let self = self\<lparr>timestamps_parameters := Some tp\<rparr>;
          adc = adc_channel_recording self;
          ids = adc_channel_ids adc;
          channel_index = trigger_channel_index tp
      in if channel_index < 0 \<or> channel_index \<ge> int (length ids)
         then (Inl (range_error channel_index (length ids)), self)
         else
           (case candidate_timestamps (adc_get_traces adc (ids ! nat channel_index))
                   (trigger tp) (adc_sampling_frequency adc) of
              Inl e \<Rightarrow> (Inl e, self)
            | Inr tts \<Rightarrow>
                (Inr (), self\<lparr>trigger_timestamps :=
                                  apply_min_interval (min_interval (trigger tp)) tts\<rparr>)))"



section \<open>ProbeClass.py and probe alignment\<close>

text \<open>
  One row of the probe table. Of the columns that the complete table has, only
  \<open>contact_ids\<close> and \<open>device_channel_indices\<close> are read or written by the alignment; the
  contact position stands for the columns that are carried along.
\<close>

record probe_row =
  contact_ids :: cell
  device_channel_indices :: int
  pos_x :: real
  pos_y :: real

section \<open>ProtocolClass.py and SorterClass.py\<close>

text \<open>
  A dictionary keeps its insertion order, so it is an association list: \<open>map_of\<close> reads a
  key, and \<open>AList.update\<close> overwrites the key in place or appends it when it is new, as an
  item assignment does.
\<close>

datatype pyval = Num real | Str string | Arr "real list"

type_synonym step_params = "(string \<times> pyval) list"

type_synonym steps = "(string \<times> step_params) list"

record Protocol =
  min_freq :: real
  max_freq :: real
  protocol_file_path :: string
  params :: "(string \<times> steps) list"

definition Protocol_init :: "real \<Rightarrow> real \<Rightarrow> string \<Rightarrow> Protocol" where
  "Protocol_init mn mx path =
     \<lparr>min_freq = mn, max_freq = mx, protocol_file_path = path,
      params =
        [(''preprocessing'',
            [(''bandpass_filter'', [(''freq_min'', Num mn), (''freq_max'', Num mx)])]),
         (''postprocessing'',
            [(''random_spikes'', []),
             (''noise_levels'', []),
             (''correlograms'', []),
             (''waveforms'', []),
             (''templates'', []),
             (''amplitude_scalings'', []),
             (''spike_amplitudes'', []),
             (''unit_locations'', [(''method'', Str ''center_of_mass'')]),
             (''spike_locations'', []),
             (''template_similarity'', []),
             (''template_metrics'', []),
             (''quality_metrics'', [])])]\<rparr>"

text \<open>
  Of a sorter the pipeline reads the name only; its parameter dictionaries come from the
  library and are not used by any code modelled here.
\<close>

record Sorter =
  name :: string

section \<open>The store and the library\<close>

text \<open>
  Objects that are shared by reference live in a store: the data frames (a \<open>Probe\<close> holds
  the address of its table) and the protocol objects (a pipeline holds the address of its
  own copy). An address is an index into the list; allocation appends. \<open>files\<close> holds the
  tables written to disk.
\<close>

record world =
  frames :: "probe_row list list"
  protocols :: "Protocol list"
  files :: "string \<rightharpoonup> probe_row list"

text \<open>
  The functions of the external libraries are parameters: each returns its result or the
  exception it raises. The types of recordings, probes, sortings and analyzers are left
  open. \<open>sort_values\<close> is the sort of a table by \<open>device_channel_indices\<close>; the
  library does not promise an order among rows of equal index, so nothing but what a
  theorem assumes of it is known.
\<close>

record ('r, 'p, 's, 'a) library =
  sort_values :: "probe_row list \<Rightarrow> probe_row list"
  to_csv :: "probe_row list \<Rightarrow> string \<Rightarrow> exn + unit"
  from_dataframe :: "probe_row list \<Rightarrow> exn + 'p"
  set_probe :: "'r \<Rightarrow> 'p probe_slot \<Rightarrow> exn + 'r"
  apply_preprocessing_pipeline :: "'r \<Rightarrow> steps \<Rightarrow> exn + 'r"
  run_sorter :: "string \<Rightarrow> 'r \<Rightarrow> string \<Rightarrow> bool \<Rightarrow> exn + 's"
  remove_duplicated_spikes :: "'s \<Rightarrow> exn + 's"
  create_sorting_analyzer :: "'r \<Rightarrow> 's \<Rightarrow> string \<Rightarrow> bool \<Rightarrow> exn + 'a"
  compute :: "'a \<Rightarrow> steps \<Rightarrow> exn + 'a"
  path_join :: "string \<Rightarrow> string \<Rightarrow> string"

section \<open>IntanClass.py: associate\_probe\<close>

text \<open>Line 169: the column that replaces \<open>contact_ids\<close> in the caller's table.\<close>

definition normalise_contact_ids :: "probe_row list \<Rightarrow> probe_row list" where
  "normalise_contact_ids df = map (\<lambda>r. r\<lparr>contact_ids := astype_str (contact_ids r)\<rparr>) df"

text \<open>Line 170: the rows whose contact id is among the texts of the channel ids.\<close>

definition isin_channel_ids :: "probe_row list \<Rightarrow> cell list \<Rightarrow> probe_row list" where
  "isin_channel_ids df chs = filter (\<lambda>r. contact_ids r \<in> set (map astype_str chs)) df"

text \<open>Line 171: \<open>drop_duplicates\<close> keeps the first row of each contact id.\<close>

fun drop_duplicates_from :: "cell list \<Rightarrow> probe_row list \<Rightarrow> probe_row list" where
  "drop_duplicates_from seen [] = []"
| "drop_duplicates_from seen (r # rs) =
     (if contact_ids r \<in> set seen then drop_duplicates_from seen rs
      else r # drop_duplicates_from (contact_ids r # seen) rs)"

definition drop_duplicates :: "probe_row list \<Rightarrow> probe_row list" where
  "drop_duplicates df = drop_duplicates_from [] df"

definition apostrophe :: string where
  "apostrophe = [CHR 0x27]"

definition e_acute :: string where
  "e_acute = [CHR 0xC3, CHR 0xA9]"

text \<open>
  The message of lines 176 to 180; the accented letter is written as its two bytes in
  UTF-8.
\<close>

definition count_mismatch_error :: "nat \<Rightarrow> nat \<Rightarrow> exn" where
  "count_mismatch_error n_probe_contacts n_recording_channels =
     Exn ValueError
       (''Incoh'' @ e_acute @ ''rence entre le nombre de contacts du probe (''
          @ str_of_int (int n_probe_contacts)
          @ '') et le nombre de canaux de l'' @ apostrophe @ ''enregistrement (''
          @ str_of_int (int n_recording_channels) @ ''). ''
          @ ''V'' @ e_acute @ ''rifiez le mapping des '' @ apostrophe @ ''contact_ids''
          @ apostrophe @ '' ou la s'' @ e_acute @ ''lection des canaux.'') None"

text \<open>Line 186: the column \<open>range(len(probe_df))\<close> written over the sorted table.\<close>

definition renumber :: "probe_row list \<Rightarrow> probe_row list" where
  "renumber df =
     map2 (\<lambda>r i. r\<lparr>device_channel_indices := int i\<rparr>) df [0..<length df]"

text \<open>Lines 170 to 186, on the table whose contact ids are already normalised.\<close>

definition align_probe_table ::
  "('r, 'p, 's, 'a) library \<Rightarrow> probe_row list \<Rightarrow> cell list \<Rightarrow> exn + probe_row list" where
  "align_probe_table lib df chs =
     (let df1 = isin_channel_ids df chs;
          df2 = drop_duplicates df1;
          n_probe_contacts = length df2;
          n_recording_channels = length chs
      in if n_probe_contacts \<noteq> n_recording_channels
         then Inl (count_mismatch_error n_probe_contacts n_recording_channels)
         else Inr (renumber (sort_values lib df2)))"

text \<open>
  The method. Line 165 stores the caller's object in the session before anything is
  checked, and line 169 assigns the normalised column into the caller's own table; the
  filtered, sorted and renumbered tables are new objects.
\<close>

definition associate_probe ::
  "('r, 'p, 's, 'a) library \<Rightarrow> Probe \<Rightarrow> world \<times> ('r, 'p, 's, 'a) IntanFile
     \<Rightarrow> (exn + unit) \<times> world \<times> ('r, 'p, 's, 'a) IntanFile" where
  "associate_probe lib prb st =
     (let w = fst st;
          self = (snd st)\<lparr>probe := ProbeWrapper prb\<rparr>;
          d = dataframe prb;
          probe_df = normalise_contact_ids (frames w ! d);
          w = w\<lparr>frames := (frames w)[d := probe_df]\<rparr>
      in case align_probe_table lib probe_df (channel_ids self) of
           Inl e \<Rightarrow> (Inl e, w, self)
         | Inr aligned \<Rightarrow>
             (case to_csv lib aligned ''probe_dataframe_dump.txt'' of
                Inl e \<Rightarrow> (Inl e, w, self)
              | Inr u \<Rightarrow>
                  (let w = w\<lparr>files := (files w)(''probe_dataframe_dump.txt'' \<mapsto> aligned)\<rparr>
                   in case from_dataframe lib aligned of
                        Inl e \<Rightarrow> (Inl e, w, self)
                      | Inr p \<Rightarrow>
                          (let self = self\<lparr>probe := ProbeObject p\<rparr>
                           in case set_probe lib (signed_amplifier_channel_recording self)
                                     (ProbeObject p) of
                                Inl e \<Rightarrow> (Inl e, w, self)
                              | Inr r \<Rightarrow>
                                  (Inr (),
                                   w, self\<lparr>signed_amplifier_channel_recording := r\<rparr>)))))"

section \<open>PipelineClass.py\<close>

record Pipeline_obj =
  sorter :: Sorter
  protocol :: nat
  output_sorter_folder :: string
  output_analyzer_folder :: string

text \<open>\<open>copy.deepcopy\<close>: a new object with the same contents, sharing nothing.\<close>

definition copy_deepcopy :: "world \<Rightarrow> nat \<Rightarrow> nat \<times> world" where
  "copy_deepcopy w a = (length (protocols w), w\<lparr>protocols := protocols w @ [protocols w ! a]\<rparr>)"

text \<open>A missing key: the text of a \<open>KeyError\<close> is the key in quotes.\<close>

definition key_error :: "string \<Rightarrow> exn" where
  "key_error k = Exn KeyError (apostrophe @ k @ apostrophe) None"

definition remove_artifacts ::
  "Pipeline_obj \<Rightarrow> world \<times> ('r, 'p, 's, 'a) IntanFile
     \<Rightarrow> (exn + unit) \<times> world \<times> ('r, 'p, 's, 'a) IntanFile" where
  "remove_artifacts self st =
     (let w = fst st; rhs_files = snd st
      in if length (trigger_timestamps rhs_files) \<noteq> 0
         then
           (let p = protocols w ! protocol self
            in case map_of (params p) ''preprocessing'' of
                 None \<Rightarrow> (Inl (key_error ''preprocessing''), st)
               | Some pre \<Rightarrow>
                   (let pre = AList.update ''remove_artifacts''
                                [(''list_triggers'', Arr (trigger_timestamps rhs_files)),
                                 (''mode'', Str ''zeros'')] pre;
                        p = p\<lparr>params := AList.update ''preprocessing'' pre (params p)\<rparr>
                    in (Inr (), w\<lparr>protocols := (protocols w)[protocol self := p]\<rparr>, rhs_files)))
         else (Inr (), st))"

text \<open>\<open>needle in haystack\<close> on texts.\<close>

fun is_substring :: "string \<Rightarrow> string \<Rightarrow> bool" where
  "is_substring p [] = (p = [])"
| "is_substring p (c # cs) = (prefix p (c # cs) \<or> is_substring p cs)"

definition reattach_probe ::
  "('r, 'p, 's, 'a) library \<Rightarrow> ('r, 'p, 's, 'a) IntanFile \<Rightarrow> 'r \<Rightarrow> exn + 'r" where
  "reattach_probe lib rhs_files rec =
     (case probe rhs_files of NoProbe \<Rightarrow> Inr rec | slot \<Rightarrow> set_probe lib rec slot)"

text \<open>Lines 76 to 89: the construction of the analyzer and its handler.\<close>

definition empty_sorting_error :: "exn \<Rightarrow> exn" where
  "empty_sorting_error exc =
     Exn RuntimeError ''Analyzer creation failed because sorting has no spikes to sample.''
       (Some exc)"

definition create_analyzer_guarded ::
  "('r, 'p, 's, 'a) library \<Rightarrow> 'r \<Rightarrow> 's \<Rightarrow> string \<Rightarrow> exn + 'a" where
  "create_analyzer_guarded lib rec sorting folder =
     (case create_sorting_analyzer lib rec sorting folder True of
        Inr analyzer_result \<Rightarrow> Inr analyzer_result
      | Inl exc \<Rightarrow>
          (if isinstance_ValueError exc
           then (if is_substring ''need at least one array to concatenate'' (exn_message exc)
                 then Inl (empty_sorting_error exc)
                 else Inl exc)
           else Inl exc))"

definition pipeline_sorter_analyzer ::
  "('r, 'p, 's, 'a) library \<Rightarrow> Pipeline_obj \<Rightarrow> world \<times> ('r, 'p, 's, 'a) IntanFile
     \<Rightarrow> (exn + unit) \<times> world \<times> ('r, 'p, 's, 'a) IntanFile" where
  "pipeline_sorter_analyzer lib self st =
     (let w = fst st; rhs = snd st; prm = params (protocols w ! protocol self)
      in case map_of prm ''preprocessing'' of
           None \<Rightarrow> (Inl (key_error ''preprocessing''), w, rhs)
         | Some pre \<Rightarrow>
      (case apply_preprocessing_pipeline lib (signed_amplifier_channel_recording rhs) pre of
           Inl e \<Rightarrow> (Inl e, w, rhs)
         | Inr rec0 \<Rightarrow>
      (case reattach_probe lib rhs rec0 of
           Inl e \<Rightarrow> (Inl e, w, rhs)
         | Inr rec \<Rightarrow>
      (let rhs = rhs\<lparr>pre_processed_signed_amplifier_channel_recording := Some rec\<rparr>
       in case run_sorter lib (name (sorter self)) rec (output_sorter_folder self) True of
           Inl e \<Rightarrow> (Inl e, w, rhs)
         | Inr sorting_results \<Rightarrow>
      (case remove_duplicated_spikes lib sorting_results of
           Inl e \<Rightarrow> (Inl e, w, rhs)
         | Inr dedup \<Rightarrow>
      (let rhs = rhs\<lparr>sorting_dedup := Some dedup\<rparr>
       in case create_analyzer_guarded lib rec dedup (output_analyzer_folder self) of
           Inl e \<Rightarrow> (Inl e, w, rhs)
         | Inr analyzer_result \<Rightarrow>
      (case map_of prm ''postprocessing'' of
           None \<Rightarrow> (Inl (key_error ''postprocessing''), w, rhs)
         | Some post \<Rightarrow>
      (case compute lib analyzer_result post of
           Inl e \<Rightarrow> (Inl e, w, rhs)
         | Inr computed \<Rightarrow>
             (Inr (), w, rhs\<lparr>computed_analyzer_result := Some computed\<rparr>)))))))))"

text \<open>
  The constructor: it copies the protocol, builds the two folder names, injects the
  artifact step and runs the pipeline. When a step raises, no pipeline object is
  returned.
\<close>

definition Pipeline_init ::
  "('r, 'p, 's, 'a) library \<Rightarrow> Sorter \<Rightarrow> string \<Rightarrow> nat
     \<Rightarrow> world \<times> ('r, 'p, 's, 'a) IntanFile
     \<Rightarrow> (exn + Pipeline_obj) \<times> world \<times> ('r, 'p, 's, 'a) IntanFile" where
  "Pipeline_init lib srt folder proto st =
     (let c = copy_deepcopy (fst st) proto;
          self = \<lparr>sorter = srt, protocol = fst c,
                  output_sorter_folder =
                    path_join lib folder (''Sorting_pipeline_'' @ name srt),
                  output_analyzer_folder =
                    path_join lib folder (''Analyzer_binary_pipeline_'' @ name srt)\<rparr>
      in case remove_artifacts self (snd c, snd st) of
           (Inl e, st1) \<Rightarrow> (Inl e, st1)
         | (Inr u, st1) \<Rightarrow>
             (case pipeline_sorter_analyzer lib self st1 of
                (Inl e, st2) \<Rightarrow> (Inl e, st2)
              | (Inr u2, st2) \<Rightarrow> (Inr self, st2)))"

section \<open>Example inputs and auxiliary notions\<close>

definition example_adc :: "int list \<Rightarrow> adc_recording" where
  "example_adc samples =
     \<lparr>adc_channel_ids = [StrId ''0'', StrId ''1''],
      adc_get_traces = (\<lambda>c. if c = StrId ''0'' then samples else []),
      adc_sampling_frequency = 1000\<rparr>"

definition example_session :: "int list \<Rightarrow> (unit, unit, unit, unit) IntanFile" where
  "example_session samples =
     \<lparr>folder_path = ''rec'', trigger_timestamps = [], frequency = 30000,
      channel_ids = [StrId ''1'', StrId ''2''],
      adc_channel_recording = example_adc samples,
      signed_amplifier_channel_recording = (),
      pre_processed_signed_amplifier_channel_recording = None, probe = NoProbe,
      timestamps_parameters = None, computed_analyzer_result = None, sorting_dedup = None\<rparr>"

definition example_parameters :: "real \<Rightarrow> int \<Rightarrow> TimestampsParameters" where
  "example_parameters mi idx =
     \<lparr>trigger = \<lparr>threshold = 35000, edge = - 1, min_interval = mi\<rparr>,
      trigger_channel_index = idx\<rparr>"

definition synthetic_signal :: "int list" where
  "synthetic_signal = [40000, 40000, 30000, 30000, 40000, 40000]"

definition burst_signal :: "int list" where
  "burst_signal = [40000, 30000, 40000, 30000, 40000]"

definition example_probe_table :: "cell \<Rightarrow> int \<Rightarrow> int \<Rightarrow> int \<Rightarrow> probe_row list" where
  "example_probe_table c0 d0 d1 d2 =
     [\<lparr>contact_ids = c0, device_channel_indices = d0, pos_x = 0, pos_y = 0\<rparr>,
      \<lparr>contact_ids = StrId ''1'', device_channel_indices = d1, pos_x = 0, pos_y = 20\<rparr>,
      \<lparr>contact_ids = StrId ''2'', device_channel_indices = d2, pos_x = 0, pos_y = 40\<rparr>]"

definition example_library :: "exn option \<Rightarrow> (unit, unit, unit, unit) library" where
  "example_library failure =
     \<lparr>sort_values = sort_key device_channel_indices,
      to_csv = (\<lambda>df path. Inr ()),
      from_dataframe = (\<lambda>df. Inr ()),
      set_probe = (\<lambda>r p. Inr r),
      apply_preprocessing_pipeline = (\<lambda>r st. Inr r),
      run_sorter = (\<lambda>nm r folder rm. Inr ()),
      remove_duplicated_spikes = (\<lambda>s. Inr s),
      create_sorting_analyzer =
        (\<lambda>r s folder ow. case failure of None \<Rightarrow> Inr () | Some e \<Rightarrow> Inl e),
      compute = (\<lambda>a st. Inr a),
      path_join = (\<lambda>a b. a @ ''/'' @ b)\<rparr>"

definition example_world :: "probe_row list \<Rightarrow> world" where
  "example_world df = \<lparr>frames = [df], protocols = [Protocol_init 400 5000 ''my_protocol.json''],
                        files = Map.empty\<rparr>"

definition example_probe :: Probe where
  "example_probe = \<lparr>file_path = ''MEA.json'', dataframe = 0\<rparr>"

definition is_text :: "cell \<Rightarrow> bool" where
  "is_text c = (case c of StrId s \<Rightarrow> True | IntId i \<Rightarrow> False)"

definition four_channel_session :: "(unit, unit, unit, unit) IntanFile" where
  "four_channel_session =
     (example_session [])\<lparr>channel_ids := [StrId ''0'', StrId ''1'', StrId ''2'', StrId ''3'']\<rparr>"

definition example_sorter :: Sorter where
  "example_sorter = \<lparr>name = ''tridesclous2''\<rparr>"

definition triggered_session :: "(unit, unit, unit, unit) IntanFile" where
  "triggered_session = (example_session [])\<lparr>trigger_timestamps := [1 / 2, 6]\<rparr>"

definition injected_step :: "real list \<Rightarrow> step_params" where
  "injected_step tts = [(''list_triggers'', Arr tts), (''mode'', Str ''zeros'')]"


definition silent_session :: "(unit, unit, unit, unit) IntanFile" where
  "silent_session = example_session []"














section \<open>Floating-point arithmetic: properties\<close>

lemma two_to_powr: "two_to e = 2 powr (of_int e)"
proof (cases "0 \<le> e")
  case True
  then have "(2::real) powr (of_int e) = 2 ^ nat e"
    by (metis of_int_of_nat_eq int_nat_eq powr_realpow zero_less_numeral of_nat_nat)
  then show ?thesis using True by (simp add: two_to_def)
next
  case False
  then have "(2::real) powr (real (nat (- e))) = 2 ^ nat (- e)" "real (nat (- e)) = - of_int e"
    using powr_realpow [of "2::real" "nat (- e)"] by simp_all
  then have "(2::real) powr (of_int e) = 1 / 2 ^ nat (- e)"
    using powr_minus_divide [of "2::real" "- of_int e"] by simp
  then show ?thesis using False by (simp add: two_to_def)
qed

lemma two_to_pos: "0 < two_to e"
  by (simp add: two_to_powr)


lemma two_to_mono: "a \<le> b \<Longrightarrow> two_to a \<le> two_to b"
  by (simp add: two_to_powr)

lemma floor_log2:
  assumes "two_to e \<le> a" and "a < two_to (e + 1)"
  shows "\<lfloor>log 2 a\<rfloor> = e"
proof -
  have pos: "0 < a" using assms(1) two_to_pos [of e] by linarith
  have lo: "of_int e \<le> log 2 a"
    using assms(1) pos by (simp add: two_to_powr le_log_iff)
  have hi: "log 2 a < of_int e + 1"
    using assms(2) pos by (simp add: two_to_powr log_less_iff)
  show ?thesis using lo hi by (simp add: floor_eq_iff)
qed

lemma two_to_floor_log2:
  assumes "0 < a"
  shows "two_to \<lfloor>log 2 a\<rfloor> \<le> a \<and> a < two_to (\<lfloor>log 2 a\<rfloor> + 1)"
proof -
  have "of_int \<lfloor>log 2 a\<rfloor> \<le> log 2 a" by simp
  then have lo: "two_to \<lfloor>log 2 a\<rfloor> \<le> a"
    using assms by (simp add: two_to_powr le_log_iff del: of_int_floor_le)
  have "log 2 a < of_int \<lfloor>log 2 a\<rfloor> + 1" by linarith
  moreover have "(log 2 a < of_int \<lfloor>log 2 a\<rfloor> + 1)
      = (a < 2 powr (of_int \<lfloor>log 2 a\<rfloor> + 1))"
    by (rule log_less_iff) (use assms in simp_all)
  ultimately have "a < 2 powr (of_int \<lfloor>log 2 a\<rfloor> + 1)"
    by blast
  then have hi: "a < two_to (\<lfloor>log 2 a\<rfloor> + 1)"
    by (simp add: two_to_powr)
  show ?thesis using lo hi by simp
qed

lemma float64_eq:
  assumes "two_to e \<le> \<bar>x\<bar>" and "\<bar>x\<bar> < two_to (e + 1)" and "- 1022 \<le> e"
  shows "float64 x = of_int (round_half_even (x / two_to (e - 52))) * two_to (e - 52)"
proof -
  have nz: "x \<noteq> 0" using assms(1) two_to_pos [of e] by auto
  have "\<lfloor>log 2 \<bar>x\<bar>\<rfloor> = e" using assms(1,2) by (rule floor_log2)
  then show ?thesis using nz assms(3) by (simp add: float64_def Let_def max_def)
qed


lemma round_half_even_of_int: "round_half_even (of_int k) = k"
  by (simp add: round_half_even_def)



lemma two_to_less_imp: "two_to a < two_to b \<Longrightarrow> a < b"
  using two_to_mono [of b a] by (cases "a < b") simp_all

lemma float64_of_nat:
  assumes "n < 2 ^ 53"
  shows "float64 (real n) = real n"
proof (cases "n = 0")
  case True
  then show ?thesis by (simp add: float64_def)
next
  case False
  let ?e = "\<lfloor>log 2 (real n)\<rfloor>"
  have pos: "0 < real n" using False by simp
  have b: "two_to ?e \<le> real n" "real n < two_to (?e + 1)"
    using two_to_floor_log2 [OF pos] by simp_all
  have "two_to 0 \<le> real n" using False by (simp add: two_to_def)
  then have "two_to 0 < two_to (?e + 1)" using b(2) by linarith
  then have lo: "0 \<le> ?e" using two_to_less_imp [of 0 "?e + 1"] by simp
  have "real n < real (2 ^ 53)" using assms by (simp only: of_nat_less_iff)
  then have "real n < two_to 53" by (simp add: two_to_def)
  then have "two_to ?e < two_to 53" using b(1) by linarith
  then have hi: "?e \<le> 52" using two_to_less_imp [of ?e 53] by simp
  define k where "k = nat (52 - ?e)"
  have u: "two_to (?e - 52) = 1 / 2 ^ k"
    using hi by (auto simp: two_to_def k_def) 
  have q: "real n / two_to (?e - 52) = of_int (int n * 2 ^ k)"
    unfolding u by simp
  have r: "round_half_even (real n / two_to (?e - 52)) = int n * 2 ^ k"
    unfolding q by (rule round_half_even_of_int)
  have "float64 (real n) = of_int (round_half_even (real n / two_to (?e - 52))) * two_to (?e - 52)"
    using b lo by (intro float64_eq) simp_all
  also have "\<dots> = of_int (int n * 2 ^ k) * (1 / 2 ^ k)"
    using r u by simp
  also have "\<dots> = real n" by simp
  finally show ?thesis .
qed


lemma float64_small_nat: "float64 2 = 2" "float64 3 = 3" "float64 7 = 7"
  using float64_of_nat [of 2] float64_of_nat [of 3] float64_of_nat [of 7] by simp_all


lemma float64_thousandths:
  "float64 (3 / 1000) = 3458764513820541 / 2 ^ 60"
  "float64 (1 / 500) = 1152921504606847 / 2 ^ 59"
proof -
  have "float64 (3 / 1000) = of_int (round_half_even (3 / 1000 / two_to (- 9 - 52))) * two_to (- 9 - 52)"
    by (rule float64_eq) (simp_all add: two_to_def)
  then show "float64 (3 / 1000) = 3458764513820541 / 2 ^ 60"
    by (simp add: two_to_def round_half_even_def Let_def)
  have "float64 (1 / 500) = of_int (round_half_even (1 / 500 / two_to (- 9 - 52))) * two_to (- 9 - 52)"
    by (rule float64_eq) (simp_all add: two_to_def)
  then show "float64 (1 / 500) = 1152921504606847 / 2 ^ 59"
    by (simp add: two_to_def round_half_even_def Let_def)
qed

section \<open>Trigger detection: properties\<close>

lemmas example_defs = example_adc_def example_session_def example_parameters_def
  burst_signal_def

lemmas detection_defs = generate_trigger_timestamps_def candidate_timestamps_def np_where_def
  apply_min_interval_def Let_def















lemma generate_trigger_timestamps_returns:
  assumes "0 \<le> trigger_channel_index tp"
      and "trigger_channel_index tp < int (length (adc_channel_ids (adc_channel_recording self)))"
      and "length (adc_get_traces (adc_channel_recording self)
               (adc_channel_ids (adc_channel_recording self) ! nat (trigger_channel_index tp))) \<noteq> 1"
  shows "\<exists>self'. generate_trigger_timestamps self tp = (Inr (), self')"
proof -
  let ?col = "adc_get_traces (adc_channel_recording self)
               (adc_channel_ids (adc_channel_recording self) ! nat (trigger_channel_index tp))"
  obtain xs where "squeeze ?col = Vector xs"
    using assms(3) by (cases ?col rule: squeeze.cases) auto
  then show ?thesis using assms(1,2)
    by (simp add: generate_trigger_timestamps_def candidate_timestamps_def Let_def)
qed



text \<open>
  C1, as the code has it. On the synthetic signal at 1000 Hz with threshold 35000, edge -1
  and no minimum interval, detection stores exactly one timestamp, the float of 3/1000 s:
  the mask "under threshold" is 0 0 1 1 0 0, its difference is 0 1 0 -1 0, and the value
  -1 sits at index 3, where the signal returns above the threshold.
\<close>

theorem synthetic_signal_single_timestamp:
  "generate_trigger_timestamps (example_session synthetic_signal) (example_parameters 0 0)
     = (Inr (), (example_session synthetic_signal)
          \<lparr>timestamps_parameters := Some (example_parameters 0 0),
           trigger_timestamps := [float64 (3 / 1000)]\<rparr>)
   \<and> float64 (3 / 1000) = 3458764513820541 / 2 ^ 60
   \<and> \<bar>float64 (3 / 1000) - 3 / 1000\<bar> \<le> 1 / 2 ^ 60"
proof -
  have "generate_trigger_timestamps (example_session synthetic_signal) (example_parameters 0 0)
     = (Inr (), (example_session synthetic_signal)
          \<lparr>timestamps_parameters := Some (example_parameters 0 0),
           trigger_timestamps := [float64 (3 / 1000)]\<rparr>)"
    using float64_small_nat by (simp add: example_defs synthetic_signal_def detection_defs)
  moreover have "\<bar>float64 (3 / 1000) - 3 / 1000\<bar> \<le> 1 / 2 ^ 60"
    unfolding float64_thousandths by simp
  ultimately show ?thesis using float64_thousandths by simp
qed

text \<open>
  C1, as stated: the stored list is not the single timestamp of sample index 2, neither as
  the float of 2/1000 s nor as the exact quotient.
\<close>

theorem synthetic_signal_not_index_two:
  "trigger_timestamps (snd (generate_trigger_timestamps (example_session synthetic_signal)
       (example_parameters 0 0))) \<noteq> [float64 (2 / 1000)]
   \<and> trigger_timestamps (snd (generate_trigger_timestamps (example_session synthetic_signal)
       (example_parameters 0 0))) \<noteq> [2 / 1000]"
proof -
  have "trigger_timestamps (snd (generate_trigger_timestamps (example_session synthetic_signal)
       (example_parameters 0 0))) = [float64 (3 / 1000)]"
    using float64_small_nat by (simp add: example_defs synthetic_signal_def detection_defs)
  then show ?thesis using float64_thousandths by simp
qed

text \<open>
  C6. For any number of ADC channels, a trigger channel index equal to or above that number
  makes detection fail with the range error, a \<open>ValueError\<close> whose text names the index and
  the channel count, and the stored trigger timestamps stay as they were.
\<close>

theorem index_at_or_above_count_fails:
  assumes "int (length (adc_channel_ids (adc_channel_recording self))) \<le> trigger_channel_index tp"
  shows "fst (generate_trigger_timestamps self tp)
           = Inl (Exn ValueError
               (''trigger_channel_index='' @ str_of_int (trigger_channel_index tp)
                  @ '' is out of range for ''
                  @ str_of_int (int (length (adc_channel_ids (adc_channel_recording self))))
                  @ '' ADC channels.'') None)
       \<and> trigger_timestamps (snd (generate_trigger_timestamps self tp)) = trigger_timestamps self
       \<and> snd (generate_trigger_timestamps self tp) = self\<lparr>timestamps_parameters := Some tp\<rparr>"
  using assms by (simp add: generate_trigger_timestamps_def Let_def range_error_def)

theorem index_at_or_above_count_fails_witness:
  "int (length (adc_channel_ids (adc_channel_recording (example_session burst_signal))))
      \<le> trigger_channel_index (example_parameters 0 2)
   \<and> fst (generate_trigger_timestamps (example_session burst_signal) (example_parameters 0 2))
       = Inl (Exn ValueError ''trigger_channel_index=2 is out of range for 2 ADC channels.'' None)
   \<and> trigger_timestamps (snd (generate_trigger_timestamps (example_session burst_signal)
        (example_parameters 0 2))) = []"
proof -
  have h: "int (length (adc_channel_ids (adc_channel_recording (example_session burst_signal))))
      \<le> trigger_channel_index (example_parameters 0 2)"
    by (simp add: example_defs)
  have dec: "str_of_int 2 = ''2''"
    by (simp add: str_of_int_def str_of_nat.simps digit_char_def)
  show ?thesis
    using h index_at_or_above_count_fails [OF h] dec by (simp add: example_defs)
qed

text \<open>
  C10. A negative trigger channel index fails with the same range error as an index that is
  too large; it never selects a channel counted from the end, and no timestamps are stored.
\<close>

theorem negative_index_fails:
  assumes "trigger_channel_index tp < 0"
  shows "generate_trigger_timestamps self tp
           = (Inl (range_error (trigger_channel_index tp)
                     (length (adc_channel_ids (adc_channel_recording self)))),
              self\<lparr>timestamps_parameters := Some tp\<rparr>)"
  using assms by (simp add: generate_trigger_timestamps_def Let_def)

theorem negative_index_fails_witness:
  "trigger_channel_index (example_parameters 0 (- 1)) < 0
   \<and> generate_trigger_timestamps (example_session burst_signal) (example_parameters 0 (- 1))
       = (Inl (Exn ValueError ''trigger_channel_index=-1 is out of range for 2 ADC channels.'' None),
          (example_session burst_signal)\<lparr>timestamps_parameters := Some (example_parameters 0 (- 1))\<rparr>)"
proof -
  have h: "trigger_channel_index (example_parameters 0 (- 1)) < 0"
    by (simp add: example_defs)
  have dec: "str_of_int (- 1) = ''-1''" "str_of_int 2 = ''2''"
    by (simp_all add: str_of_int_def str_of_nat.simps digit_char_def)
  show ?thesis
    using h negative_index_fails [OF h, of "example_session burst_signal"] dec
    by (simp add: example_defs range_error_def)
qed

section \<open>Probe alignment: properties\<close>

lemmas probe_defs = example_probe_table_def example_library_def example_world_def example_probe_def

lemmas alignment_defs = associate_probe_def align_probe_table_def normalise_contact_ids_def
  isin_channel_ids_def drop_duplicates_def renumber_def astype_str_def Let_def

lemma decimal_texts:
  "str_of_int 0 = ''0''" "str_of_int 3 = ''3''" "str_of_int 4 = ''4''"
  "str_of_int 10 = ''10''" "str_of_int 11 = ''11''" "str_of_int 12 = ''12''"
  by (simp_all add: str_of_int_def str_of_nat.simps digit_char_def)












lemma count_mismatch_fails:
  assumes "length (drop_duplicates (isin_channel_ids
              (normalise_contact_ids (frames w ! dataframe prb)) (channel_ids self)))
           \<noteq> length (channel_ids self)"
  shows "associate_probe lib prb (w, self)
           = (Inl (count_mismatch_error
                   (length (drop_duplicates (isin_channel_ids
                      (normalise_contact_ids (frames w ! dataframe prb)) (channel_ids self))))
                   (length (channel_ids self))),
              w\<lparr>frames := (frames w)[dataframe prb :=
                    normalise_contact_ids (frames w ! dataframe prb)]\<rparr>,
              self\<lparr>probe := ProbeWrapper prb\<rparr>)"
  using assms by (simp add: associate_probe_def align_probe_table_def Let_def)

text \<open>
  C4. At a probe table with three matching contacts and a recording of four channels,
  alignment fails with the \<open>ValueError\<close> that names the counts 3 and 4 and the amplifier
  recording is left as it was; but the session, whose \<open>probe\<close> field was empty, now holds
  the caller's unaligned object there, stored before the check, and the pipeline's test for
  an attached probe passes it on to \<open>set_probe\<close>.
\<close>

theorem count_mismatch_leaves_wrapper_in_session:
  "fst (associate_probe (example_library None) example_probe
          (example_world (example_probe_table (StrId ''0'') 0 1 2), four_channel_session))
     = Inl (Exn ValueError
           (''Incoh'' @ e_acute @ ''rence entre le nombre de contacts du probe (3) et le nombre ''
              @ ''de canaux de l'' @ apostrophe @ ''enregistrement (4). V'' @ e_acute
              @ ''rifiez le mapping des '' @ apostrophe @ ''contact_ids'' @ apostrophe
              @ '' ou la s'' @ e_acute @ ''lection des canaux.'') None)
   \<and> signed_amplifier_channel_recording (snd (snd (associate_probe (example_library None)
        example_probe (example_world (example_probe_table (StrId ''0'') 0 1 2),
          four_channel_session))))
       = signed_amplifier_channel_recording four_channel_session
   \<and> probe four_channel_session = NoProbe
   \<and> probe (snd (snd (associate_probe (example_library None) example_probe
          (example_world (example_probe_table (StrId ''0'') 0 1 2), four_channel_session))))
       = ProbeWrapper example_probe
   \<and> reattach_probe (example_library None)
        (snd (snd (associate_probe (example_library None) example_probe
          (example_world (example_probe_table (StrId ''0'') 0 1 2), four_channel_session)))) ()
       = set_probe (example_library None) () (ProbeWrapper example_probe)"
proof -
  have n: "length (drop_duplicates (isin_channel_ids
       (normalise_contact_ids
          (frames (example_world (example_probe_table (StrId ''0'') 0 1 2)) ! dataframe example_probe))
       (channel_ids four_channel_session))) = 3"
     "length (channel_ids four_channel_session) = 4"
    by (simp_all add: probe_defs alignment_defs four_channel_session_def example_defs)
  have h: "length (drop_duplicates (isin_channel_ids
       (normalise_contact_ids
          (frames (example_world (example_probe_table (StrId ''0'') 0 1 2)) ! dataframe example_probe))
       (channel_ids four_channel_session)))
     \<noteq> length (channel_ids four_channel_session)"
    unfolding n by simp
  have before: "probe four_channel_session = NoProbe"
    by (simp add: four_channel_session_def example_session_def)
  show ?thesis
    using count_mismatch_fails [OF h, of "example_library None"] decimal_texts before
    unfolding n by (simp add: count_mismatch_error_def reattach_probe_def)
qed

lemma normalise_fixed: "normalise_contact_ids df = df \<longleftrightarrow> (\<forall>r \<in> set df. is_text (contact_ids r))"
proof -
  have "\<And>r :: probe_row. r\<lparr>contact_ids := astype_str (contact_ids r)\<rparr> = r \<longleftrightarrow> is_text (contact_ids r)"
  proof -
    fix r :: probe_row
    show "r\<lparr>contact_ids := astype_str (contact_ids r)\<rparr> = r \<longleftrightarrow> is_text (contact_ids r)"
      by (cases r; cases "contact_ids r") (auto simp: astype_str_def is_text_def)
  qed
  then show ?thesis
    unfolding normalise_contact_ids_def by (simp add: map_idI list_eq_iff_nth_eq all_set_conv_all_nth)
qed

lemma frames_after_associate:
  "frames (fst (snd (associate_probe lib prb (w, self))))
     = (frames w)[dataframe prb := normalise_contact_ids (frames w ! dataframe prb)]"
  by (simp add: associate_probe_def Let_def split: sum.splits)

text \<open>
  C9. The table that a \<open>Probe\<close> object holds is loaded from the probe file with its contact
  ids as texts. For every such table the caller's table is the same after alignment as
  before, every row and every column, whether alignment succeeds or fails, and so is every
  other table of the store.
\<close>

theorem caller_table_after_alignment:
  assumes "\<forall>r \<in> set (frames w ! dataframe prb). is_text (contact_ids r)"
  shows "frames (fst (snd (associate_probe lib prb (w, self)))) = frames w
       \<and> frames (fst (snd (associate_probe lib prb (w, self)))) ! dataframe prb
           = frames w ! dataframe prb"
proof -
  have "normalise_contact_ids (frames w ! dataframe prb) = frames w ! dataframe prb"
    using assms by (simp add: normalise_fixed)
  then show ?thesis by (simp add: frames_after_associate)
qed

theorem caller_table_after_alignment_witness:
  "map (\<lambda>r. is_text (contact_ids r))
       (frames (example_world (example_probe_table (StrId ''0'') 5 9 7)) ! dataframe example_probe)
     = [True, True, True]
   \<and> fst (associate_probe (example_library None) example_probe
        (example_world (example_probe_table (StrId ''0'') 5 9 7), example_session [])) = Inr ()
   \<and> frames (fst (snd (associate_probe (example_library None) example_probe
        (example_world (example_probe_table (StrId ''0'') 5 9 7), example_session []))))
       = [example_probe_table (StrId ''0'') 5 9 7]
   \<and> fst (associate_probe (example_library None) example_probe
        (example_world (example_probe_table (StrId ''0'') 5 9 7), four_channel_session))
       = Inl (count_mismatch_error 3 4)
   \<and> frames (fst (snd (associate_probe (example_library None) example_probe
        (example_world (example_probe_table (StrId ''0'') 5 9 7), four_channel_session))))
       = [example_probe_table (StrId ''0'') 5 9 7]"
proof -
  have h: "\<forall>r \<in> set (frames (example_world (example_probe_table (StrId ''0'') 5 9 7))
                   ! dataframe example_probe). is_text (contact_ids r)"
    by (simp add: probe_defs is_text_def)
  have ok: "fst (associate_probe (example_library None) example_probe
        (example_world (example_probe_table (StrId ''0'') 5 9 7), example_session [])) = Inr ()"
    by (simp add: probe_defs alignment_defs example_session_def)
  have bad: "fst (associate_probe (example_library None) example_probe
        (example_world (example_probe_table (StrId ''0'') 5 9 7), four_channel_session))
       = Inl (count_mismatch_error 3 4)"
    by (simp add: probe_defs alignment_defs four_channel_session_def example_session_def
        eval_nat_numeral)
  have before: "frames (example_world (example_probe_table (StrId ''0'') 5 9 7))
      = [example_probe_table (StrId ''0'') 5 9 7]"
    by (simp add: example_world_def)
  have texts: "map (\<lambda>r. is_text (contact_ids r))
       (frames (example_world (example_probe_table (StrId ''0'') 5 9 7)) ! dataframe example_probe)
     = [True, True, True]"
    by (simp add: probe_defs is_text_def)
  show ?thesis
    using texts ok bad
      caller_table_after_alignment [OF h, of "example_library None" "example_session []"]
      caller_table_after_alignment [OF h, of "example_library None" four_channel_session]
    unfolding before by simp
qed

section \<open>Pipeline: properties\<close>

lemma Protocol_init_preprocessing:
  "map_of (params (Protocol_init mn mx path)) ''preprocessing''
     = Some [(''bandpass_filter'', [(''freq_min'', Num mn), (''freq_max'', Num mx)])]
   \<and> map_of [(''bandpass_filter'', [(''freq_min'', Num mn), (''freq_max'', Num mx)])]
        ''remove_artifacts'' = None"
  by (simp add: Protocol_init_def)

lemma world_after_sorter_analyzer:
  "fst (snd (pipeline_sorter_analyzer lib self st)) = fst st"
  by (simp add: pipeline_sorter_analyzer_def Let_def split: option.splits sum.splits)

lemma protocols_after_remove_artifacts:
  "protocols (fst (snd (remove_artifacts self st)))
     = protocols (fst st) \<or>
   (\<exists>p. protocols (fst (snd (remove_artifacts self st))) = (protocols (fst st))[protocol self := p])"
  by (auto simp: remove_artifacts_def Let_def split: option.splits)

lemma Pipeline_init_world:
  "fst (snd (Pipeline_init lib srt folder proto st))
     = fst (snd (remove_artifacts
         \<lparr>sorter = srt, protocol = length (protocols (fst st)),
          output_sorter_folder = path_join lib folder (''Sorting_pipeline_'' @ name srt),
          output_analyzer_folder = path_join lib folder (''Analyzer_binary_pipeline_'' @ name srt)\<rparr>
         (snd (copy_deepcopy (fst st) proto), snd st)))"
  by (simp add: Pipeline_init_def Let_def copy_deepcopy_def world_after_sorter_analyzer
      split: prod.splits sum.splits)
    (metis fst_conv snd_conv world_after_sorter_analyzer)

lemma update_new_key: "k \<notin> fst ` set al \<Longrightarrow> AList.update k v al = al @ [(k, v)]"
  by (induction al) auto

lemma copy_after_remove_artifacts:
  assumes "protocol self < length (protocols (fst st))"
      and "map_of (params (protocols (fst st) ! protocol self)) ''preprocessing'' = Some pre"
  shows "map_of (params (protocols (fst (snd (remove_artifacts self st))) ! protocol self))
           ''preprocessing''
         = Some (if trigger_timestamps (snd st) = [] then pre
                 else AList.update ''remove_artifacts''
                        (injected_step (trigger_timestamps (snd st))) pre)"
  using assms by (simp add: remove_artifacts_def Let_def injected_step_def update_conv')

text \<open>
  C8. The protocol object that the caller passes is the same before and after the whole
  run of the constructor, whether it returns a pipeline or raises: the pipeline works on a
  fresh copy, and no protocol object that existed before the run is altered.
\<close>


theorem caller_protocol_unchanged:
  assumes "proto < length (protocols (fst st))"
  shows "protocols (fst (snd (Pipeline_init lib srt folder proto st))) ! proto
           = protocols (fst st) ! proto
       \<and> take (length (protocols (fst st)))
            (protocols (fst (snd (Pipeline_init lib srt folder proto st))))
           = protocols (fst st)"
proof -
  let ?self = "\<lparr>sorter = srt, protocol = length (protocols (fst st)),
          output_sorter_folder = path_join lib folder (''Sorting_pipeline_'' @ name srt),
          output_analyzer_folder = path_join lib folder (''Analyzer_binary_pipeline_'' @ name srt)\<rparr>"
  let ?st1 = "(snd (copy_deepcopy (fst st) proto), snd st)"
  let ?after = "protocols (fst (snd (remove_artifacts ?self ?st1)))"
  have copied: "protocols (fst ?st1) = protocols (fst st) @ [protocols (fst st) ! proto]"
    by (simp add: copy_deepcopy_def)
  have "?after = protocols (fst ?st1)
      \<or> (\<exists>p. ?after = (protocols (fst ?st1))[protocol ?self := p])"
    by (rule protocols_after_remove_artifacts)
  then have kept: "take (length (protocols (fst st))) ?after = protocols (fst st)"
    unfolding copied by auto
  have w: "protocols (fst (snd (Pipeline_init lib srt folder proto st))) = ?after"
    by (simp add: Pipeline_init_world)
  have "?after ! proto = take (length (protocols (fst st))) ?after ! proto"
    using assms by simp
  then show ?thesis using kept w by simp
qed

theorem caller_protocol_unchanged_witness:
  "0 < length (protocols (fst (example_world [], triggered_session)))
   \<and> protocols (fst (snd (Pipeline_init (example_library None) example_sorter ''rec'' 0
         (example_world [], triggered_session)))) ! 0
       = Protocol_init 400 5000 ''my_protocol.json''
   \<and> map_of (params (protocols (fst (snd (Pipeline_init (example_library None) example_sorter
         ''rec'' 0 (example_world [], triggered_session)))) ! 1)) ''preprocessing''
       = Some [(''bandpass_filter'', [(''freq_min'', Num 400), (''freq_max'', Num 5000)]),
               (''remove_artifacts'', [(''list_triggers'', Arr [1 / 2, 6]), (''mode'', Str ''zeros'')])]"
proof -
  have h: "0 < length (protocols (fst (example_world [], triggered_session)))"
    by (simp add: example_world_def)
  have c: "map_of (params (protocols (fst (snd (Pipeline_init (example_library None) example_sorter
         ''rec'' 0 (example_world [], triggered_session)))) ! 1)) ''preprocessing''
       = Some [(''bandpass_filter'', [(''freq_min'', Num 400), (''freq_max'', Num 5000)]),
               (''remove_artifacts'', [(''list_triggers'', Arr [1 / 2, 6]), (''mode'', Str ''zeros'')])]"
    by (simp add: Pipeline_init_world copy_deepcopy_def remove_artifacts_def Let_def
        example_world_def triggered_session_def example_session_def Protocol_init_def)
  show ?thesis
    using h c caller_protocol_unchanged [OF h, of "example_library None" example_sorter "''rec''"]
    by (simp add: example_world_def)
qed

text \<open>
  C3. For a protocol whose preprocessing has no artifact step of its own (as every protocol
  built by the constructor of \<open>Protocol\<close>), the pipeline's copy has the step
  \<open>remove_artifacts\<close> after the run exactly when the session's trigger timestamps are not
  empty; it is then appended with the parameters \<open>list_triggers\<close>, the session's
  timestamps, and \<open>mode\<close>, "zeros". With no timestamps the preprocessing of the copy is
  that of the caller's protocol, with no such step.
\<close>


theorem artifact_step_injected_iff_triggers:
  assumes "proto < length (protocols w)"
      and "map_of (params (protocols w ! proto)) ''preprocessing'' = Some pre"
      and "map_of pre ''remove_artifacts'' = None"
  shows "\<exists>pre'.
           map_of (params (protocols (fst (snd (Pipeline_init lib srt folder proto (w, rhs))))
                     ! length (protocols w))) ''preprocessing'' = Some pre'
         \<and> (map_of pre' ''remove_artifacts'' \<noteq> None \<longleftrightarrow> trigger_timestamps rhs \<noteq> [])
         \<and> (trigger_timestamps rhs \<noteq> [] \<longrightarrow>
              map_of pre' ''remove_artifacts''
                = Some [(''list_triggers'', Arr (trigger_timestamps rhs)), (''mode'', Str ''zeros'')]
              \<and> pre' = pre @ [(''remove_artifacts'',
                   [(''list_triggers'', Arr (trigger_timestamps rhs)), (''mode'', Str ''zeros'')])])
         \<and> (trigger_timestamps rhs = [] \<longrightarrow> pre' = pre)"
proof -
  let ?self = "\<lparr>sorter = srt, protocol = length (protocols w),
          output_sorter_folder = path_join lib folder (''Sorting_pipeline_'' @ name srt),
          output_analyzer_folder = path_join lib folder (''Analyzer_binary_pipeline_'' @ name srt)\<rparr>"
  let ?st1 = "(snd (copy_deepcopy w proto), rhs)"
  let ?new = "AList.update ''remove_artifacts'' (injected_step (trigger_timestamps rhs)) pre"
  have valid: "protocol ?self < length (protocols (fst ?st1))"
    by (simp add: copy_deepcopy_def)
  have same: "map_of (params (protocols (fst ?st1) ! protocol ?self)) ''preprocessing'' = Some pre"
    using assms(2) by (simp add: copy_deepcopy_def)
  have after: "map_of (params (protocols (fst (snd (Pipeline_init lib srt folder proto (w, rhs))))
                     ! length (protocols w))) ''preprocessing''
         = Some (if trigger_timestamps rhs = [] then pre else ?new)"
    using copy_after_remove_artifacts [OF valid same] by (simp add: Pipeline_init_world)
  have absent: "''remove_artifacts'' \<notin> fst ` set pre"
    using assms(3) by (simp add: map_of_eq_None_iff)
  have appended: "?new = pre @ [(''remove_artifacts'', injected_step (trigger_timestamps rhs))]"
    using absent by (rule update_new_key)
  have looked: "map_of ?new ''remove_artifacts'' = Some (injected_step (trigger_timestamps rhs))"
    by (simp add: update_conv')
  show ?thesis
  proof (cases "trigger_timestamps rhs = []")
    case True
    then show ?thesis using after assms(3) by simp
  next
    case False
    then show ?thesis using after looked appended by (simp add: injected_step_def)
  qed
qed

theorem artifact_step_injected_iff_triggers_witness:
  "0 < length (protocols (example_world []))
   \<and> map_of (params (protocols (example_world []) ! 0)) ''preprocessing''
       = Some [(''bandpass_filter'', [(''freq_min'', Num 400), (''freq_max'', Num 5000)])]
   \<and> map_of [(''bandpass_filter'', [(''freq_min'', Num 400), (''freq_max'', Num 5000)])]
        ''remove_artifacts'' = None
   \<and> map_of (params (protocols (fst (snd (Pipeline_init (example_library None) example_sorter
         ''rec'' 0 (example_world [], triggered_session)))) ! 1)) ''preprocessing''
       = Some [(''bandpass_filter'', [(''freq_min'', Num 400), (''freq_max'', Num 5000)]),
               (''remove_artifacts'', [(''list_triggers'', Arr [1 / 2, 6]), (''mode'', Str ''zeros'')])]
   \<and> map_of (params (protocols (fst (snd (Pipeline_init (example_library None) example_sorter
         ''rec'' 0 (example_world [], silent_session)))) ! 1)) ''preprocessing''
       = Some [(''bandpass_filter'', [(''freq_min'', Num 400), (''freq_max'', Num 5000)])]"
proof -
  let ?pre = "[(''bandpass_filter'', [(''freq_min'', Num 400), (''freq_max'', Num 5000)])]"
  have v: "0 < length (protocols (example_world []))"
    by (simp add: example_world_def)
  have p: "map_of (params (protocols (example_world []) ! 0)) ''preprocessing'' = Some ?pre"
    by (simp add: example_world_def Protocol_init_def)
  have a: "map_of ?pre ''remove_artifacts'' = None"
    by simp
  have n: "length (protocols (example_world [])) = 1"
    by (simp add: example_world_def)
  have t: "trigger_timestamps triggered_session = [1 / 2, 6]"
       "trigger_timestamps silent_session = []"
    by (simp_all add: triggered_session_def silent_session_def example_session_def)
  show ?thesis
    using v p a
      artifact_step_injected_iff_triggers [OF v p a, of "example_library None" example_sorter
        "''rec''" triggered_session]
      artifact_step_injected_iff_triggers [OF v p a, of "example_library None" example_sorter
        "''rec''" silent_session]
    unfolding n t by auto
qed






end
